theory Spec2Isabelle
  imports Main "HOL-Library.Word" "HOL-Library.Sublist"
begin

section \<open>NodePodOperator: the pod specification of one kedro node\<close>

text \<open>
  The module \<^verbatim>\<open>kedro_airflow_k8s/operators/node_pod.py\<close> defines one class,
  \<^verbatim>\<open>NodePodOperator\<close>. Its constructor assembles the keyword arguments handed to
  the base operator, two static helpers build the resource and security-context
  dictionaries, and the property \<^verbatim>\<open>minimal_pod_template\<close> renders a partial pod
  definition as text.
\<close>

subsection \<open>Errors and name resolution\<close>

text \<open>
  Python resolves a bare name at run time: first among the locals of the running
  function, then among the names bound at module level; a name bound in neither
  (and not a builtin) raises \<^verbatim>\<open>NameError\<close>. The module binds exactly the names
  of its imports and of its class statement.
\<close>

datatype error = NameError string

datatype pyobj =
    PyModule string
  | PyClass string
  | PyTyping string
  | PyBool bool
  | PyInt int

definition module_globals :: "string \<rightharpoonup> pyobj" where
  "module_globals =
     [''uuid'' \<mapsto> PyModule ''uuid'',
      ''List'' \<mapsto> PyTyping ''List'',
      ''Dict'' \<mapsto> PyTyping ''Dict'',
      ''Optional'' \<mapsto> PyTyping ''Optional'',
      ''PodGenerator'' \<mapsto> PyClass ''PodGenerator'',
      ''KubernetesPodOperator'' \<mapsto> PyClass ''KubernetesPodOperator'',
      ''k8s'' \<mapsto> PyModule ''kubernetes.client.models'',
      ''NodePodOperator'' \<mapsto> PyClass ''NodePodOperator'']"

definition load_name :: "(string \<rightharpoonup> pyobj) \<Rightarrow> string \<Rightarrow> error + pyobj" where
  "load_name locals n =
     (case locals n of
        Some v \<Rightarrow> Inr v
      | None \<Rightarrow> (case module_globals n of
                   Some v \<Rightarrow> Inr v
                 | None \<Rightarrow> Inl (NameError n)))"

subsection \<open>The static helpers\<close>

text \<open>
  \<^verbatim>\<open>if x:\<close> on an optional string takes the branch when \<open>x\<close> is neither
  \<^verbatim>\<open>None\<close> nor the empty string; the value stored is the string itself.
\<close>

definition store_if_truthy ::
  "string \<Rightarrow> string option \<Rightarrow> (string \<rightharpoonup> string) \<Rightarrow> (string \<rightharpoonup> string)" where
  "store_if_truthy key v d =
     (case v of
        None \<Rightarrow> d
      | Some s \<Rightarrow> if s \<noteq> [] then d(key \<mapsto> s) else d)"

text \<open>
  \<^verbatim>\<open>create_resources\<close>: four conditional stores into one dictionary, in the order
  and under the key literals of the source (the local \<^verbatim>\<open>limits = {}\<close> is never read).
\<close>

definition create_resources ::
  "string option \<Rightarrow> string option \<Rightarrow> string option \<Rightarrow> string option \<Rightarrow> (string \<rightharpoonup> string)" where
  "create_resources requests_cpu requests_memory limits_cpu limits_memory =
     (let resources = Map.empty;
          resources = store_if_truthy ''request_cpu'' requests_cpu resources;
          resources = store_if_truthy ''request_memory'' requests_memory resources;
          resources = store_if_truthy ''limit_memory'' limits_cpu resources;
          resources = store_if_truthy ''limit_cpu'' limits_memory resources
      in resources)"

text \<open>
  \<^verbatim>\<open>create_security_context\<close>: a conditional expression. Its first arm is the
  dictionary display \<^verbatim>\<open>{fs_group: volume_owner}\<close>, whose key is the value of the
  name \<^verbatim>\<open>fs_group\<close>; the arm is evaluated only when the volume is not disabled.
\<close>

definition create_security_context :: "bool \<Rightarrow> int \<Rightarrow> error + (pyobj \<rightharpoonup> int)" where
  "create_security_context volume_disabled volume_owner =
     (let locals = [''volume_disabled'' \<mapsto> PyBool volume_disabled,
                    ''volume_owner'' \<mapsto> PyInt volume_owner]
      in if \<not> volume_disabled
         then (case load_name locals ''fs_group'' of
                 Inl e \<Rightarrow> Inl e
               | Inr k \<Rightarrow> Inr [k \<mapsto> volume_owner])
         else Inr Map.empty)"

subsection \<open>Rendering the partial pod definition\<close>

text \<open>
  \<^verbatim>\<open>uuid.uuid4().hex\<close> is the 128-bit value of the drawn UUID printed with
  \<^verbatim>\<open>'%032x'\<close>: lower-case hexadecimal digits, padded with zeros to 32 characters.
  The drawn UUID is an input of the model.
\<close>

definition hex_digit :: "nat \<Rightarrow> char" where
  "hex_digit d = ''0123456789abcdef'' ! (d mod 16)"

fun hex_of_nat :: "nat \<Rightarrow> string" where
  "hex_of_nat n = (if n < 16 then [hex_digit n] else hex_of_nat (n div 16) @ [hex_digit (n mod 16)])"

declare hex_of_nat.simps [simp del]

definition format_032x :: "nat \<Rightarrow> string" where
  "format_032x n = replicate (32 - length (hex_of_nat n)) (CHR ''0'') @ hex_of_nat n"

definition uuid_hex :: "128 word \<Rightarrow> string" where
  "uuid_hex u = format_032x (unat u)"

text \<open>An f-string field prints a string as it is and \<^verbatim>\<open>None\<close> as the text None.\<close>

definition format_field :: "string option \<Rightarrow> string" where
  "format_field v = (case v of None \<Rightarrow> ''None'' | Some s \<Rightarrow> s)"

text \<open>The attributes the constructor stores on the instance.\<close>

record self_attrs =
  self_task_id :: string
  self_volume_disabled :: bool
  self_pvc_name :: "string option"
  self_mlflow_enabled :: bool

text \<open>
  The three text blocks of \<^verbatim>\<open>minimal_pod_template\<close>. The first and the third are
  f-strings; the second is a plain literal, so its braces are kept as written.
\<close>

definition template_head :: "string \<Rightarrow> string \<Rightarrow> string" where
  "template_head tid hex =
     ''\<newline>apiVersion: v1\<newline>kind: Pod\<newline>metadata:\<newline>  name: '' @ tid @ ''.'' @ hex
     @ ''\<newline>spec:\<newline>  containers:\<newline>    - name: base\<newline>      env:\<newline>''"

definition template_mlflow :: string where
  \<open>template_mlflow =
     ''\<newline>        - name: MLFLOW_RUN_ID\<newline>          value: {{ task_instance.xcom_pull(key="mlflow_run_id") }}\<newline>''\<close>

definition template_volumes :: "string option \<Rightarrow> string" where
  "template_volumes pvc =
     ''\<newline>  volumes:\<newline>    - name: storage\<newline>      persistentVolumeClaim:\<newline>        claimName: ''
     @ format_field pvc @ ''\<newline>''"

definition minimal_pod_template :: "self_attrs \<Rightarrow> 128 word \<Rightarrow> string" where
  "minimal_pod_template self u =
     (let t = template_head (self_task_id self) (uuid_hex u);
          t = (if self_mlflow_enabled self then t @ template_mlflow else t);
          t = (if \<not> self_volume_disabled self then t @ template_volumes (self_pvc_name self) else t)
      in t)"

subsection \<open>The constructor\<close>

text \<open>
  A keyword parameter with a default is either omitted by the caller or given; an
  omitted one takes the default written in the signature.
\<close>

datatype 'a param = Omitted | Given 'a

fun default_to :: "'a \<Rightarrow> 'a param \<Rightarrow> 'a" where
  "default_to d Omitted = d"
| "default_to d (Given v) = v"

record call =
  arg_node_name :: string
  arg_namespace :: string
  arg_image :: string
  arg_image_pull_policy :: string
  arg_env :: string
  arg_task_id :: string
  arg_pipeline :: "string param"
  arg_pvc_name :: "string option param"
  arg_startup_timeout :: "int param"
  arg_volume_disabled :: "bool param"
  arg_volume_owner :: "int param"
  arg_mlflow_enabled :: "bool param"
  arg_requests_cpu :: "string option param"
  arg_requests_memory :: "string option param"
  arg_limits_cpu :: "string option param"
  arg_limits_memory :: "string option param"
  arg_node_selector_labels :: "(string \<times> string) list option param"
  arg_labels :: "(string \<times> string) list option param"
  arg_tolerations :: "(string \<times> string) list list option param"
  arg_annotations :: "(string \<times> string) list option param"
  arg_source :: "string param"

record V1VolumeMount =
  vm_mount_path :: string
  vm_name :: string

text \<open>
  The constructed operator: the attributes stored on the instance, and the keyword
  arguments handed to \<^verbatim>\<open>KubernetesPodOperator.__init__\<close>, which belongs to the
  Airflow library and is taken to record them.
\<close>

record node_pod_operator =
  op_self :: self_attrs
  kw_name :: string
  kw_task_id :: string
  kw_security_context :: "pyobj \<rightharpoonup> int"
  kw_namespace :: string
  kw_image :: string
  kw_image_pull_policy :: string
  kw_arguments :: "string list"
  kw_volume_mounts :: "V1VolumeMount list"
  kw_resources :: "string \<rightharpoonup> string"
  kw_startup_timeout_seconds :: int
  kw_is_delete_operator_pod :: bool
  kw_config_file :: string
  kw_node_selectors :: "(string \<times> string) list option"
  kw_labels :: "(string \<times> string) list option"
  kw_tolerations :: "(string \<times> string) list list option"
  kw_annotations :: "(string \<times> string) list option"

text \<open>
  \<^verbatim>\<open>__init__\<close> stores four attributes, then evaluates the keyword arguments of the
  base constructor from left to right: \<^verbatim>\<open>security_context\<close> is the third, so an
  exception raised by \<^verbatim>\<open>create_security_context\<close> leaves the constructor before
  any later argument is evaluated. \<^verbatim>\<open>config_file\<close> reads the property
  \<^verbatim>\<open>minimal_pod_template\<close>, which draws a UUID; the drawn value is the second
  input of the model.
\<close>

definition init :: "call \<Rightarrow> 128 word \<Rightarrow> error + node_pod_operator" where
  "init c u =
     (let task_id = arg_task_id c;
          pipeline = default_to ''__default__'' (arg_pipeline c);
          pvc_name = default_to None (arg_pvc_name c);
          startup_timeout = default_to 600 (arg_startup_timeout c);
          volume_disabled = default_to False (arg_volume_disabled c);
          volume_owner = default_to 0 (arg_volume_owner c);
          mlflow_enabled = default_to True (arg_mlflow_enabled c);
          requests_cpu = default_to None (arg_requests_cpu c);
          requests_memory = default_to None (arg_requests_memory c);
          limits_cpu = default_to None (arg_limits_cpu c);
          limits_memory = default_to None (arg_limits_memory c);
          node_selector_labels = default_to None (arg_node_selector_labels c);
          labels = default_to None (arg_labels c);
          tolerations = default_to None (arg_tolerations c);
          annotations = default_to None (arg_annotations c);
          source = default_to ''/home/kedro/data'' (arg_source c);
          self = \<lparr>self_task_id = task_id,
                  self_volume_disabled = volume_disabled,
                  self_pvc_name = pvc_name,
                  self_mlflow_enabled = mlflow_enabled\<rparr>
      in case create_security_context volume_disabled volume_owner of
           Inl e \<Rightarrow> Inl e
         | Inr security_context \<Rightarrow>
             Inr \<lparr>op_self = self,
                  kw_name = task_id,
                  kw_task_id = task_id,
                  kw_security_context = security_context,
                  kw_namespace = arg_namespace c,
                  kw_image = arg_image c,
                  kw_image_pull_policy = arg_image_pull_policy c,
                  kw_arguments =
                    [''kedro'', ''run'', ''-e'', arg_env c,
                     ''--pipeline'', pipeline, ''--node'', arg_node_name c],
                  kw_volume_mounts =
                    (if \<not> volume_disabled
                     then [\<lparr>vm_mount_path = source, vm_name = ''storage''\<rparr>]
                     else []),
                  kw_resources =
                    create_resources requests_cpu requests_memory limits_cpu limits_memory,
                  kw_startup_timeout_seconds = startup_timeout,
                  kw_is_delete_operator_pod = True,
                  kw_config_file = minimal_pod_template self u,
                  kw_node_selectors = node_selector_labels,
                  kw_labels = labels,
                  kw_tolerations = tolerations,
                  kw_annotations = annotations\<rparr>)"

subsection \<open>Reading a rendered document\<close>

text \<open>
  The rendered text is read line by line, as a YAML reader does: the lines between
  line breaks, a line stripped of its indentation, the line \<^verbatim>\<open>name:\<close> of the
  metadata block, the pairs of lines \<^verbatim>\<open>- name: N\<close> / \<^verbatim>\<open>value: V\<close> that make an
  environment entry, and the key line that opens a volumes block.
\<close>

fun split_lines :: "string \<Rightarrow> string list" where
  "split_lines [] = [[]]"
| "split_lines (c # cs) =
     (if c = CHR ''\<newline>'' then [] # split_lines cs
      else (case split_lines cs of
              [] \<Rightarrow> [[c]]
            | l # ls \<Rightarrow> (c # l) # ls))"

definition strip_indent :: "string \<Rightarrow> string" where
  "strip_indent l = dropWhile (\<lambda>c. c = CHR '' '') l"

fun strip_prefix :: "string \<Rightarrow> string \<Rightarrow> string option" where
  "strip_prefix [] s = Some s"
| "strip_prefix (p # ps) [] = None"
| "strip_prefix (p # ps) (c # cs) = (if p = c then strip_prefix ps cs else None)"

fun metadata_name :: "string list \<Rightarrow> string option" where
  "metadata_name [] = None"
| "metadata_name (l # ls) =
     (case strip_prefix ''  name: '' l of
        Some n \<Rightarrow> Some n
      | None \<Rightarrow> metadata_name ls)"

fun env_entries :: "string list \<Rightarrow> (string \<times> string) list" where
  "env_entries (l # m # ls) =
     (case strip_prefix ''- name: '' (strip_indent l) of
        None \<Rightarrow> env_entries (m # ls)
      | Some n \<Rightarrow>
          (case strip_prefix ''value: '' (strip_indent m) of
             None \<Rightarrow> env_entries (m # ls)
           | Some v \<Rightarrow> (n, v) # env_entries ls))"
| "env_entries ls = []"

definition has_volumes_block :: "string list \<Rightarrow> bool" where
  "has_volumes_block ls = (''volumes:'' \<in> set (map strip_indent ls))"

text \<open>
  The digits of a number in a fixed width, used to compare two \<^verbatim>\<open>'%032x'\<close>
  renderings digit by digit.
\<close>

fun hex_fixed :: "nat \<Rightarrow> nat \<Rightarrow> string" where
  "hex_fixed 0 n = []"
| "hex_fixed (Suc k) n = hex_fixed k (n div 16) @ [hex_digit (n mod 16)]"

subsection \<open>Sample inputs\<close>

text \<open>
  A call that disables the volume, and two sets of instance attributes with the volume
  enabled: one with a claim name, one without.
\<close>

definition example_call :: call where
  "example_call =
     \<lparr>arg_node_name = ''train'',
      arg_namespace = ''airflow'',
      arg_image = ''registry/kedro:latest'',
      arg_image_pull_policy = ''IfNotPresent'',
      arg_env = ''local'',
      arg_task_id = ''train-model'',
      arg_pipeline = Omitted,
      arg_pvc_name = Given (Some ''shared-pvc''),
      arg_startup_timeout = Omitted,
      arg_volume_disabled = Given True,
      arg_volume_owner = Omitted,
      arg_mlflow_enabled = Omitted,
      arg_requests_cpu = Omitted,
      arg_requests_memory = Omitted,
      arg_limits_cpu = Omitted,
      arg_limits_memory = Omitted,
      arg_node_selector_labels = Omitted,
      arg_labels = Omitted,
      arg_tolerations = Omitted,
      arg_annotations = Omitted,
      arg_source = Omitted\<rparr>"

definition example_self :: self_attrs where
  "example_self =
     \<lparr>self_task_id = ''train-model'',
      self_volume_disabled = False,
      self_pvc_name = Some ''shared-pvc'',
      self_mlflow_enabled = True\<rparr>"

definition unclaimed_self :: self_attrs where
  "unclaimed_self =
     \<lparr>self_task_id = ''train-model'',
      self_volume_disabled = False,
      self_pvc_name = None,
      self_mlflow_enabled = True\<rparr>"

section \<open>Properties\<close>

subsection \<open>Lines of a text\<close>

lemma split_lines_nonempty: "split_lines s \<noteq> []"
  by (induction s) (auto split: list.splits)

lemma split_lines_single: "CHR ''\<newline>'' \<notin> set a \<Longrightarrow> split_lines a = [a]"
  by (induction a) auto

lemma split_lines_break:
  "CHR ''\<newline>'' \<notin> set a \<Longrightarrow> split_lines (a @ CHR ''\<newline>'' # b) = a # split_lines b"
  by (induction a) auto

subsection \<open>The hexadecimal rendering of a UUID\<close>

lemma hex_digit_in: "hex_digit d \<in> set ''0123456789abcdef''"
  unfolding hex_digit_def by (rule nth_mem) simp

lemma hex_of_nat_chars: "set (hex_of_nat n) \<subseteq> set ''0123456789abcdef''"
proof (induction n rule: hex_of_nat.induct)
  case (1 n)
  show ?case
  proof (cases "n < 16")
    case True
    then show ?thesis using hex_digit_in [of n] by (subst hex_of_nat.simps) simp
  next
    case False
    then show ?thesis using 1 hex_digit_in [of "n mod 16"]
      by (subst hex_of_nat.simps) simp
  qed
qed

lemma uuid_hex_chars: "set (uuid_hex u) \<subseteq> set ''0123456789abcdef''"
  using hex_of_nat_chars [of "unat u"]
  by (auto simp: uuid_hex_def format_032x_def)

lemma uuid_hex_no_break: "CHR ''\<newline>'' \<notin> set (uuid_hex u)"
  using uuid_hex_chars [of u] by auto

subsection \<open>The lines of the three text blocks\<close>

lemma head_lines:
  assumes "CHR ''\<newline>'' \<notin> set tid" and "CHR ''\<newline>'' \<notin> set hex"
  shows "split_lines (template_head tid hex @ rest) =
     ['''', ''apiVersion: v1'', ''kind: Pod'', ''metadata:'', ''  name: '' @ tid @ ''.'' @ hex,
      ''spec:'', ''  containers:'', ''    - name: base'', ''      env:''] @ split_lines rest"
proof -
  have nb: "CHR ''\<newline>'' \<notin> set (''  name: '' @ tid @ ''.'' @ hex)"
    using assms by simp
  have "template_head tid hex @ rest =
      ''\<newline>apiVersion: v1\<newline>kind: Pod\<newline>metadata:\<newline>'' @
      ((''  name: '' @ tid @ ''.'' @ hex) @ CHR ''\<newline>'' #
        (''spec:\<newline>  containers:\<newline>    - name: base\<newline>      env:\<newline>'' @ rest))"
    by (simp add: template_head_def)
  then show ?thesis
    using split_lines_break [OF nb] split_lines_nonempty [of rest]
    by (simp split: list.splits)
qed

lemma mlflow_lines:
  \<open>split_lines (template_mlflow @ rest) =
     ['''', ''        - name: MLFLOW_RUN_ID'',
      ''          value: {{ task_instance.xcom_pull(key="mlflow_run_id") }}''] @ split_lines rest\<close>
  using split_lines_nonempty [of rest]
  by (simp add: template_mlflow_def split: list.splits)

lemma volumes_lines:
  assumes "CHR ''\<newline>'' \<notin> set (format_field pvc)"
  shows "split_lines (template_volumes pvc) =
     ['''', ''  volumes:'', ''    - name: storage'', ''      persistentVolumeClaim:'',
      ''        claimName: '' @ format_field pvc, '''']"
proof -
  have nb: "CHR ''\<newline>'' \<notin> set (''        claimName: '' @ format_field pvc)"
    using assms by simp
  have "template_volumes pvc =
      ''\<newline>  volumes:\<newline>    - name: storage\<newline>      persistentVolumeClaim:\<newline>'' @
      ((''        claimName: '' @ format_field pvc) @ CHR ''\<newline>'' # [])"
    by (simp add: template_volumes_def)
  then show ?thesis
    using split_lines_break [OF nb, of "[]"]
    by simp
qed

subsection \<open>Two UUIDs print differently\<close>

lemma hex_digit_inj: "hex_digit a = hex_digit b \<Longrightarrow> a mod 16 = b mod 16"
proof -
  assume h: "hex_digit a = hex_digit b"
  have d: "distinct ''0123456789abcdef''" by simp
  have la: "a mod 16 < length ''0123456789abcdef''" and lb: "b mod 16 < length ''0123456789abcdef''"
    by simp_all
  from h show ?thesis
    unfolding hex_digit_def using nth_eq_iff_index_eq [OF d la lb] by blast
qed

lemma hex_digit_zero: "hex_digit 0 = CHR ''0''"
  by (simp add: hex_digit_def)

lemma length_hex_fixed: "length (hex_fixed k n) = k"
  by (induction k arbitrary: n) simp_all

lemma hex_fixed_zero: "hex_fixed k 0 = replicate k (CHR ''0'')"
  by (induction k) (simp_all add: hex_digit_zero replicate_append_same)

lemma div16_less: "n < 16 * x \<Longrightarrow> n div 16 < (x::nat)"
  by arith

lemma hex_fixed_inj:
  "n < 16 ^ k \<Longrightarrow> m < 16 ^ k \<Longrightarrow> hex_fixed k n = hex_fixed k m \<Longrightarrow> n = m"
proof (induction k arbitrary: n m)
  case 0
  then show ?case by simp
next
  case (Suc k)
  from Suc.prems(3) have e1: "hex_fixed k (n div 16) = hex_fixed k (m div 16)"
    and e2: "hex_digit (n mod 16) = hex_digit (m mod 16)"
    by simp_all
  have "n < 16 * 16 ^ k" "m < 16 * 16 ^ k"
    using Suc.prems(1,2) by simp_all
  then have "n div 16 < 16 ^ k" "m div 16 < 16 ^ k"
    by (simp_all only: div16_less)
  with e1 have q: "n div 16 = m div 16" by (rule Suc.IH [rotated 2])
  from hex_digit_inj [OF e2] have r: "n mod 16 = m mod 16" by simp
  have "n = 16 * (n div 16) + n mod 16" by simp
  also have "\<dots> = 16 * (m div 16) + m mod 16" using q r by simp
  also have "\<dots> = m" by simp
  finally show ?case .
qed

lemma pad_hex_of_nat:
  "n < 16 ^ Suc k \<Longrightarrow>
   replicate (Suc k - length (hex_of_nat n)) (CHR ''0'') @ hex_of_nat n = hex_fixed (Suc k) n"
proof (induction k arbitrary: n)
  case 0
  then show ?case by (subst (1 2) hex_of_nat.simps) simp
next
  case (Suc k)
  show ?case
  proof (cases "n < 16")
    case True
    then show ?thesis
      by (subst (1 2) hex_of_nat.simps) (simp add: hex_fixed_zero hex_digit_zero replicate_append_same)
  next
    case False
    have b: "n div 16 < 16 ^ Suc k"
      using Suc.prems by (simp add: less_mult_imp_div_less mult.commute)
    have "hex_of_nat n = hex_of_nat (n div 16) @ [hex_digit (n mod 16)]"
      using False by (subst hex_of_nat.simps) simp
    then show ?thesis using Suc.IH [OF b] by simp
  qed
qed

lemma format_032x_fixed: "n < 16 ^ 32 \<Longrightarrow> format_032x n = hex_fixed 32 n"
proof -
  assume "n < 16 ^ 32"
  then have "n < 16 ^ Suc 31" by simp
  from pad_hex_of_nat [OF this] show ?thesis by (simp add: format_032x_def)
qed

lemma unat_uuid_bound: "unat (u :: 128 word) < 16 ^ 32"
proof -
  have "unat u < 2 ^ 128" using unsigned_less [of u] by simp
  then show ?thesis by simp
qed

lemma uuid_hex_fixed: "uuid_hex u = hex_fixed 32 (unat u)"
  unfolding uuid_hex_def by (rule format_032x_fixed) (rule unat_uuid_bound)

lemma length_uuid_hex: "length (uuid_hex u) = 32"
  by (simp add: uuid_hex_fixed length_hex_fixed)

lemma uuid_hex_inj: "uuid_hex u = uuid_hex v \<Longrightarrow> u = v"
proof -
  assume "uuid_hex u = uuid_hex v"
  then have "hex_fixed 32 (unat u) = hex_fixed 32 (unat v)" by (simp add: uuid_hex_fixed)
  then have "unat u = unat v"
    using hex_fixed_inj [OF unat_uuid_bound unat_uuid_bound] by blast
  then show ?thesis by (simp add: word_unat_eq_iff)
qed

subsection \<open>The lines of a rendered document\<close>

text \<open>
  When the task identifier and the printed claim name hold no line break, the document
  has the lines below; the last one is the empty line after the final line break.
\<close>

lemma template_lines:
  assumes "CHR ''\<newline>'' \<notin> set (self_task_id self)"
    and "self_volume_disabled self \<or> CHR ''\<newline>'' \<notin> set (format_field (self_pvc_name self))"
  shows \<open>split_lines (minimal_pod_template self u) =
     ['''', ''apiVersion: v1'', ''kind: Pod'', ''metadata:'',
      ''  name: '' @ self_task_id self @ ''.'' @ uuid_hex u,
      ''spec:'', ''  containers:'', ''    - name: base'', ''      env:'']
     @ (if self_mlflow_enabled self
        then ['''', ''        - name: MLFLOW_RUN_ID'',
              ''          value: {{ task_instance.xcom_pull(key="mlflow_run_id") }}'']
        else [])
     @ (if \<not> self_volume_disabled self
        then ['''', ''  volumes:'', ''    - name: storage'', ''      persistentVolumeClaim:'',
              ''        claimName: '' @ format_field (self_pvc_name self)]
        else [])
     @ ['''']\<close>
proof -
  note hl = head_lines [OF assms(1) uuid_hex_no_break [of u]]
  show ?thesis
  proof (cases "self_mlflow_enabled self")
    case True
    show ?thesis
    proof (cases "self_volume_disabled self")
      case True
      with \<open>self_mlflow_enabled self\<close> show ?thesis
        using hl [of template_mlflow] mlflow_lines [of "[]"]
        by (simp add: minimal_pod_template_def)
    next
      case False
      with assms(2) have nb: "CHR ''\<newline>'' \<notin> set (format_field (self_pvc_name self))" by simp
      from False \<open>self_mlflow_enabled self\<close> show ?thesis
        using hl [of "template_mlflow @ template_volumes (self_pvc_name self)"]
          mlflow_lines [of "template_volumes (self_pvc_name self)"] volumes_lines [OF nb]
        by (simp add: minimal_pod_template_def)
    qed
  next
    case False
    show ?thesis
    proof (cases "self_volume_disabled self")
      case True
      with \<open>\<not> self_mlflow_enabled self\<close> show ?thesis
        using hl [of "[]"]
        by (simp add: minimal_pod_template_def)
    next
      case False
      with assms(2) have nb: "CHR ''\<newline>'' \<notin> set (format_field (self_pvc_name self))" by simp
      from False \<open>\<not> self_mlflow_enabled self\<close> show ?thesis
        using hl [of "template_volumes (self_pvc_name self)"] volumes_lines [OF nb]
        by (simp add: minimal_pod_template_def)
    qed
  qed
qed

subsection \<open>The helpers and the constructor\<close>

lemma security_context_disabled: "create_security_context True owner = Inr Map.empty"
  by (simp add: create_security_context_def)

lemma security_context_enabled: "create_security_context False owner = Inl (NameError ''fs_group'')"
  by (simp add: create_security_context_def load_name_def module_globals_def)

lemma init_disabled:
  assumes "arg_volume_disabled c = Given True"
  shows "init c u =
    Inr \<lparr>op_self = \<lparr>self_task_id = arg_task_id c,
                    self_volume_disabled = True,
                    self_pvc_name = default_to None (arg_pvc_name c),
                    self_mlflow_enabled = default_to True (arg_mlflow_enabled c)\<rparr>,
         kw_name = arg_task_id c,
         kw_task_id = arg_task_id c,
         kw_security_context = Map.empty,
         kw_namespace = arg_namespace c,
         kw_image = arg_image c,
         kw_image_pull_policy = arg_image_pull_policy c,
         kw_arguments =
           [''kedro'', ''run'', ''-e'', arg_env c,
            ''--pipeline'', default_to ''__default__'' (arg_pipeline c), ''--node'', arg_node_name c],
         kw_volume_mounts = [],
         kw_resources =
           create_resources (default_to None (arg_requests_cpu c))
             (default_to None (arg_requests_memory c))
             (default_to None (arg_limits_cpu c))
             (default_to None (arg_limits_memory c)),
         kw_startup_timeout_seconds = default_to 600 (arg_startup_timeout c),
         kw_is_delete_operator_pod = True,
         kw_config_file =
           minimal_pod_template
             \<lparr>self_task_id = arg_task_id c,
              self_volume_disabled = True,
              self_pvc_name = default_to None (arg_pvc_name c),
              self_mlflow_enabled = default_to True (arg_mlflow_enabled c)\<rparr> u,
         kw_node_selectors = default_to None (arg_node_selector_labels c),
         kw_labels = default_to None (arg_labels c),
         kw_tolerations = default_to None (arg_tolerations c),
         kw_annotations = default_to None (arg_annotations c)\<rparr>"
  unfolding init_def Let_def
  by (simp add: assms security_context_disabled)

lemma init_enabled:
  assumes "default_to False (arg_volume_disabled c) = False"
  shows "init c u = Inl (NameError ''fs_group'')"
  unfolding init_def Let_def
  by (simp add: assms security_context_enabled)

lemma init_arguments:
  assumes "init c u = Inr op"
  shows "kw_arguments op =
           [''kedro'', ''run'', ''-e'', arg_env c,
            ''--pipeline'', default_to ''__default__'' (arg_pipeline c), ''--node'', arg_node_name c]"
  using assms unfolding init_def Let_def
  by (auto split: sum.splits)

subsection \<open>What a reader finds in a rendered document\<close>

lemma no_volumes_line:
  assumes "CHR ''\<newline>'' \<notin> set (self_task_id self)" and "self_volume_disabled self"
  shows "\<not> has_volumes_block (split_lines (minimal_pod_template self u))"
  using assms
  by (cases "self_mlflow_enabled self")
     (simp_all add: template_lines has_volumes_block_def strip_indent_def)

lemma volumes_line:
  assumes "CHR ''\<newline>'' \<notin> set (self_task_id self)"
    and "CHR ''\<newline>'' \<notin> set (format_field (self_pvc_name self))"
    and "\<not> self_volume_disabled self"
  shows "has_volumes_block (split_lines (minimal_pod_template self u))"
  using assms
  by (cases "self_mlflow_enabled self")
     (simp_all add: template_lines has_volumes_block_def strip_indent_def)

lemma template_env_entries:
  assumes "CHR ''\<newline>'' \<notin> set (self_task_id self)"
    and "self_volume_disabled self \<or> CHR ''\<newline>'' \<notin> set (format_field (self_pvc_name self))"
  shows \<open>env_entries (split_lines (minimal_pod_template self u)) =
     (if self_mlflow_enabled self
      then [(''MLFLOW_RUN_ID'', ''{{ task_instance.xcom_pull(key="mlflow_run_id") }}'')]
      else [])\<close>
  using assms by (simp add: template_lines strip_indent_def)

lemma template_metadata_name:
  assumes "CHR ''\<newline>'' \<notin> set (self_task_id self)"
    and "self_volume_disabled self \<or> CHR ''\<newline>'' \<notin> set (format_field (self_pvc_name self))"
  shows "metadata_name (split_lines (minimal_pod_template self u)) =
           Some (self_task_id self @ ''.'' @ uuid_hex u)"
  using assms by (simp add: template_lines)

lemma template_split:
  "minimal_pod_template self u =
     (''\<newline>apiVersion: v1\<newline>kind: Pod\<newline>metadata:\<newline>  name: '' @ self_task_id self @ ''.'')
     @ uuid_hex u
     @ (''\<newline>spec:\<newline>  containers:\<newline>    - name: base\<newline>      env:\<newline>''
        @ (if self_mlflow_enabled self then template_mlflow else [])
        @ (if \<not> self_volume_disabled self then template_volumes (self_pvc_name self) else []))"
  by (simp add: minimal_pod_template_def template_head_def)

section \<open>The claims\<close>

text \<open>
  \<^bold>\<open>C1\<close>. Each present resource input is to appear under its own key and each absent
  one is to leave its key out. The keys of the source are \<^verbatim>\<open>request_cpu\<close>,
  \<^verbatim>\<open>request_memory\<close>, \<^verbatim>\<open>limit_cpu\<close> and \<^verbatim>\<open>limit_memory\<close>. Called with
  only a CPU limit of \<^verbatim>\<open>500m\<close>, \<^verbatim>\<open>create_resources\<close> returns a dictionary whose
  single key is \<^verbatim>\<open>limit_memory\<close>: the CPU limit is filed as a memory limit, and the
  key \<^verbatim>\<open>limit_cpu\<close> is missing. So it is for every non-empty CPU limit given
  without a memory limit, and the other way round.
\<close>

theorem create_resources_limits_cpu_misfiled:
  "create_resources None None (Some ''500m'') None = [''limit_memory'' \<mapsto> ''500m'']
   \<and> create_resources None None (Some ''500m'') None ''limit_cpu'' = None
   \<and> create_resources rc rm (Some (x # xs)) None ''limit_cpu'' = None
   \<and> create_resources rc rm (Some (x # xs)) None ''limit_memory'' = Some (x # xs)
   \<and> create_resources rc rm None (Some (x # xs)) ''limit_memory'' = None
   \<and> create_resources rc rm None (Some (x # xs)) ''limit_cpu'' = Some (x # xs)"
  by (cases rc; cases rm)
     (simp_all add: create_resources_def store_if_truthy_def Let_def)

text \<open>
  \<^bold>\<open>C2\<close>. With the volume enabled, the security context is to be the single-entry
  mapping from the filesystem-group key to the owner id, and the mount list is to hold
  one mount. \<^verbatim>\<open>create_security_context\<close> with \<^verbatim>\<open>volume_disabled = False\<close> looks up
  the name \<^verbatim>\<open>fs_group\<close>, which nothing binds, and raises \<^verbatim>\<open>NameError\<close> for every
  owner id; the constructor, which calls it before it builds the mount list, raises the
  same error and builds no specification. With \<^verbatim>\<open>volume_disabled = True\<close> the
  helper returns the empty mapping.
\<close>

theorem create_security_context_raises:
  "create_security_context False owner = Inl (NameError ''fs_group'')
   \<and> init (c\<lparr>arg_volume_disabled := Given False\<rparr>) u = Inl (NameError ''fs_group'')
   \<and> create_security_context True owner = Inr Map.empty"
  by (simp add: security_context_enabled security_context_disabled init_enabled)

text \<open>
  \<^bold>\<open>C3\<close>. The constructor is to raise no error for any combination of inputs. For every
  call that leaves \<^verbatim>\<open>volume_disabled\<close> at its default (the volume enabled), whatever
  the other arguments are, the constructor raises \<^verbatim>\<open>NameError\<close>.
\<close>

theorem init_raises_by_default:
  "init (c\<lparr>arg_volume_disabled := Omitted\<rparr>) u = Inl (NameError ''fs_group'')"
  by (simp add: init_enabled)

text \<open>
  \<^bold>\<open>C4\<close>. For every call with \<^verbatim>\<open>volume_disabled = True\<close>, whatever claim name is
  given or omitted: the constructor returns an operator, its volume-mount list is empty,
  its security context is the empty mapping, and the rendered document is the same text
  for every claim name: the head block, then the run-tracking block when run tracking is
  enabled, and nothing after it. When the task identifier holds no line break, no line of any
  render of the document is the key \<^verbatim>\<open>volumes:\<close>.
\<close>

theorem volume_disabled_leaves_no_volume:
  assumes "arg_volume_disabled c = Given True"
  shows "\<exists>op. init c u = Inr op
           \<and> kw_volume_mounts op = []
           \<and> kw_security_context op = Map.empty
           \<and> self_volume_disabled (op_self op)
           \<and> self_pvc_name (op_self op) = default_to None (arg_pvc_name c)
           \<and> kw_config_file op = minimal_pod_template (op_self op) u
           \<and> (\<forall>p v. minimal_pod_template (op_self op\<lparr>self_pvc_name := p\<rparr>) v
                      = minimal_pod_template (op_self op) v)
           \<and> (\<forall>v. minimal_pod_template (op_self op) v =
                    template_head (arg_task_id c) (uuid_hex v)
                    @ (if default_to True (arg_mlflow_enabled c) then template_mlflow else []))
           \<and> (CHR ''\<newline>'' \<notin> set (arg_task_id c) \<longrightarrow>
                (\<forall>v. \<not> has_volumes_block (split_lines (minimal_pod_template (op_self op) v))))"
  by (simp add: init_disabled [OF assms] no_volumes_line)
     (simp add: minimal_pod_template_def)

theorem volume_disabled_leaves_no_volume_witness:
  "arg_volume_disabled example_call = Given True
   \<and> (\<exists>op. init example_call 7 = Inr op
          \<and> kw_volume_mounts op = []
          \<and> kw_security_context op = Map.empty
          \<and> \<not> has_volumes_block (split_lines (kw_config_file op)))"
proof -
  have h: "arg_volume_disabled example_call = Given True"
    by (simp add: example_call_def)
  have t: "CHR ''\<newline>'' \<notin> set (arg_task_id example_call)"
    by (simp add: example_call_def)
  from volume_disabled_leaves_no_volume [OF h, of 7] t h show ?thesis
    by auto
qed

text \<open>
  \<^bold>\<open>C5\<close>. Whenever the constructor returns an operator, its \<^verbatim>\<open>arguments\<close> are exactly
  the eight strings kedro, run, -e, the environment, --pipeline, the pipeline, --node,
  the node name, in this order, whatever the optional parameters are; and with the volume
  disabled the constructor does return an operator with eight arguments.
\<close>

theorem arguments_fixed:
  "(\<forall>op. init c u = Inr op \<longrightarrow>
      kw_arguments op =
        [''kedro'', ''run'', ''-e'', arg_env c,
         ''--pipeline'', default_to ''__default__'' (arg_pipeline c),
         ''--node'', arg_node_name c])
   \<and> (arg_volume_disabled c = Given True \<longrightarrow>
        (\<exists>op. init c u = Inr op \<and> length (kw_arguments op) = 8))"
  by (auto simp: init_arguments init_disabled)

theorem arguments_fixed_witness:
  "\<exists>op. init example_call 7 = Inr op
     \<and> kw_arguments op =
         [''kedro'', ''run'', ''-e'', ''local'', ''--pipeline'', ''__default__'', ''--node'', ''train'']"
proof -
  have h: "arg_volume_disabled example_call = Given True"
    by (simp add: example_call_def)
  from arguments_fixed [of example_call 7] h
  obtain op where o: "init example_call 7 = Inr op" by blast
  with arguments_fixed [of example_call 7]
  have "kw_arguments op =
        [''kedro'', ''run'', ''-e'', arg_env example_call,
         ''--pipeline'', default_to ''__default__'' (arg_pipeline example_call),
         ''--node'', arg_node_name example_call]" by blast
  with o show ?thesis by (simp add: example_call_def)
qed

text \<open>
  \<^bold>\<open>C6\<close>. The renderer appends the block of the entry \<^verbatim>\<open>MLFLOW_RUN_ID\<close>, with the
  deferred \<^verbatim>\<open>xcom_pull\<close> expression for the key \<^verbatim>\<open>mlflow_run_id\<close> as its value,
  exactly when run tracking is enabled, between the head of the document and the volumes
  block. Read line by line (the task identifier and the printed claim name holding no
  line break), the document has exactly that one name/value entry when run tracking is
  enabled, and no name/value entry at all when it is disabled.
\<close>

theorem mlflow_entry_iff_enabled:
  \<open>minimal_pod_template self u =
      template_head (self_task_id self) (uuid_hex u)
      @ (if self_mlflow_enabled self
         then ''\<newline>        - name: MLFLOW_RUN_ID\<newline>          value: {{ task_instance.xcom_pull(key="mlflow_run_id") }}\<newline>''
         else [])
      @ (if self_volume_disabled self then [] else template_volumes (self_pvc_name self))
   \<and> (CHR ''\<newline>'' \<notin> set (self_task_id self)
        \<and> (self_volume_disabled self \<or> CHR ''\<newline>'' \<notin> set (format_field (self_pvc_name self)))
        \<longrightarrow> env_entries (split_lines (minimal_pod_template self u)) =
             (if self_mlflow_enabled self
              then [(''MLFLOW_RUN_ID'', ''{{ task_instance.xcom_pull(key="mlflow_run_id") }}'')]
              else []))\<close>
proof (intro conjI impI)
  show \<open>minimal_pod_template self u =
      template_head (self_task_id self) (uuid_hex u)
      @ (if self_mlflow_enabled self
         then ''\<newline>        - name: MLFLOW_RUN_ID\<newline>          value: {{ task_instance.xcom_pull(key="mlflow_run_id") }}\<newline>''
         else [])
      @ (if self_volume_disabled self then [] else template_volumes (self_pvc_name self))\<close>
    by (simp add: minimal_pod_template_def template_mlflow_def)
next
  assume "CHR ''\<newline>'' \<notin> set (self_task_id self)
        \<and> (self_volume_disabled self \<or> CHR ''\<newline>'' \<notin> set (format_field (self_pvc_name self)))"
  then show \<open>env_entries (split_lines (minimal_pod_template self u)) =
             (if self_mlflow_enabled self
              then [(''MLFLOW_RUN_ID'', ''{{ task_instance.xcom_pull(key="mlflow_run_id") }}'')]
              else [])\<close>
    by (simp add: template_env_entries)
qed

theorem mlflow_entry_iff_enabled_witness:
  \<open>env_entries (split_lines (minimal_pod_template example_self 7)) =
      [(''MLFLOW_RUN_ID'', ''{{ task_instance.xcom_pull(key="mlflow_run_id") }}'')]
   \<and> env_entries (split_lines (minimal_pod_template (example_self\<lparr>self_mlflow_enabled := False\<rparr>) 7)) = []\<close>
  using mlflow_entry_iff_enabled [of example_self 7, THEN conjunct2]
    mlflow_entry_iff_enabled [of "example_self\<lparr>self_mlflow_enabled := False\<rparr>" 7, THEN conjunct2]
  by (simp add: example_self_def format_field_def)

text \<open>
  \<^bold>\<open>C7\<close>. Two renders with two distinct UUIDs give two different names and two
  different documents. Each document starts with the header up to \<^verbatim>\<open>name:\<close> followed
  by the task identifier, a dot, the 32 hexadecimal digits of the UUID and a line break;
  read line by line (no line break in the task identifier or the printed claim name),
  the metadata name of each document is exactly the task identifier, the dot and the
  digits.
\<close>

theorem generated_names_differ:
  assumes "u \<noteq> v"
  shows "self_task_id self @ ''.'' @ uuid_hex u \<noteq> self_task_id self @ ''.'' @ uuid_hex v
     \<and> minimal_pod_template self u \<noteq> minimal_pod_template self v
     \<and> length (uuid_hex u) = 32 \<and> length (uuid_hex v) = 32
     \<and> prefix (''\<newline>apiVersion: v1\<newline>kind: Pod\<newline>metadata:\<newline>  name: ''
                 @ (self_task_id self @ ''.'' @ uuid_hex u) @ ''\<newline>'')
               (minimal_pod_template self u)
     \<and> prefix (''\<newline>apiVersion: v1\<newline>kind: Pod\<newline>metadata:\<newline>  name: ''
                 @ (self_task_id self @ ''.'' @ uuid_hex v) @ ''\<newline>'')
               (minimal_pod_template self v)
     \<and> (CHR ''\<newline>'' \<notin> set (self_task_id self)
          \<and> (self_volume_disabled self \<or> CHR ''\<newline>'' \<notin> set (format_field (self_pvc_name self)))
          \<longrightarrow> metadata_name (split_lines (minimal_pod_template self u))
                 = Some (self_task_id self @ ''.'' @ uuid_hex u)
              \<and> metadata_name (split_lines (minimal_pod_template self v))
                 = Some (self_task_id self @ ''.'' @ uuid_hex v))"
proof -
  from assms have ne: "uuid_hex u \<noteq> uuid_hex v"
    using uuid_hex_inj by blast
  then have n1: "self_task_id self @ ''.'' @ uuid_hex u \<noteq> self_task_id self @ ''.'' @ uuid_hex v"
    by simp
  have n2: "minimal_pod_template self u \<noteq> minimal_pod_template self v"
    using ne by (simp add: template_split length_uuid_hex)
  have p: "prefix (''\<newline>apiVersion: v1\<newline>kind: Pod\<newline>metadata:\<newline>  name: ''
                 @ (self_task_id self @ ''.'' @ uuid_hex w) @ ''\<newline>'')
               (minimal_pod_template self w)" for w
    by (simp add: template_split)
  show ?thesis
    using n1 n2 p [of u] p [of v]
    by (simp add: length_uuid_hex template_metadata_name)
qed

theorem generated_names_differ_witness:
  "(1 :: 128 word) \<noteq> 2
   \<and> metadata_name (split_lines (minimal_pod_template example_self 1))
       = Some (''train-model.'' @ uuid_hex 1)
   \<and> metadata_name (split_lines (minimal_pod_template example_self 2))
       = Some (''train-model.'' @ uuid_hex 2)
   \<and> ''train-model.'' @ uuid_hex 1 \<noteq> ''train-model.'' @ uuid_hex 2"
proof -
  have h: "(1 :: 128 word) \<noteq> 2" by simp
  from generated_names_differ [OF h, of example_self] h show ?thesis
    by (simp add: example_self_def format_field_def)
qed

text \<open>
  \<^bold>\<open>C8\<close>, as stated, says that with no claim name the claim reference in the text is
  null. For the task \<^verbatim>\<open>train-model\<close> with the volume enabled and no claim name, the
  document does not end with \<^verbatim>\<open>claimName: null\<close> and has no such line; its line is
  \<^verbatim>\<open>claimName: None\<close>, the way an f-string prints \<^verbatim>\<open>None\<close>.
\<close>

theorem absent_claim_not_null:
  "\<not> suffix ''\<newline>        claimName: null\<newline>'' (minimal_pod_template unclaimed_self 7)
   \<and> ''        claimName: null'' \<notin> set (split_lines (minimal_pod_template unclaimed_self 7))
   \<and> ''        claimName: None'' \<in> set (split_lines (minimal_pod_template unclaimed_self 7))"
proof -
  have l: "CHR ''\<newline>'' \<notin> set (self_task_id unclaimed_self)"
    "self_volume_disabled unclaimed_self
       \<or> CHR ''\<newline>'' \<notin> set (format_field (self_pvc_name unclaimed_self))"
    by (simp_all add: unclaimed_self_def format_field_def)
  have a: "minimal_pod_template unclaimed_self 7 =
      (template_head ''train-model'' (uuid_hex 7) @ template_mlflow
        @ ''\<newline>  volumes:\<newline>    - name: storage\<newline>      persistentVolumeClaim:'')
      @ ''\<newline>        claimName: None\<newline>''"
    by (simp add: minimal_pod_template_def unclaimed_self_def template_volumes_def format_field_def)
  have s: "\<not> suffix ''\<newline>        claimName: null\<newline>'' (minimal_pod_template unclaimed_self 7)"
    unfolding a suffix_def by simp
  have f: "self_mlflow_enabled unclaimed_self" "\<not> self_volume_disabled unclaimed_self"
    "format_field (self_pvc_name unclaimed_self) = ''None''"
    "self_task_id unclaimed_self = ''train-model''"
    by (simp_all add: unclaimed_self_def format_field_def)
  show ?thesis
    using s by (simp add: template_lines [OF l] f)
qed

text \<open>
  \<^bold>\<open>C8\<close>, amended. With the volume enabled, every rendered document ends with the
  volumes block that binds the name \<^verbatim>\<open>storage\<close> to a persistent volume claim whose
  \<^verbatim>\<open>claimName\<close> is the configured claim name, or the text \<^verbatim>\<open>None\<close> when no claim
  name is configured. Read line by line (no line break in the task identifier or the
  claim name), the document has the key line \<^verbatim>\<open>volumes:\<close> and ends with the five
  lines of the block.
\<close>

theorem volumes_block_names_claim:
  assumes "\<not> self_volume_disabled self"
  shows "suffix (''\<newline>  volumes:\<newline>    - name: storage\<newline>      persistentVolumeClaim:\<newline>        claimName: ''
                 @ (case self_pvc_name self of None \<Rightarrow> ''None'' | Some n \<Rightarrow> n) @ ''\<newline>'')
           (minimal_pod_template self u)
     \<and> (CHR ''\<newline>'' \<notin> set (self_task_id self)
          \<and> CHR ''\<newline>'' \<notin> set (case self_pvc_name self of None \<Rightarrow> ''None'' | Some n \<Rightarrow> n)
          \<longrightarrow> has_volumes_block (split_lines (minimal_pod_template self u))
              \<and> suffix ['''', ''  volumes:'', ''    - name: storage'', ''      persistentVolumeClaim:'',
                         ''        claimName: '' @ (case self_pvc_name self of None \<Rightarrow> ''None'' | Some n \<Rightarrow> n),
                         '''']
                   (split_lines (minimal_pod_template self u)))"
proof (intro conjI impI)
  show "suffix (''\<newline>  volumes:\<newline>    - name: storage\<newline>      persistentVolumeClaim:\<newline>        claimName: ''
                 @ (case self_pvc_name self of None \<Rightarrow> ''None'' | Some n \<Rightarrow> n) @ ''\<newline>'')
           (minimal_pod_template self u)"
  proof -
    have "minimal_pod_template self u =
        ((if self_mlflow_enabled self
          then template_head (self_task_id self) (uuid_hex u) @ template_mlflow
          else template_head (self_task_id self) (uuid_hex u)))
        @ template_volumes (self_pvc_name self)"
      using assms by (simp add: minimal_pod_template_def)
    then show ?thesis
      unfolding template_volumes_def format_field_def by (simp only: suffixI)
  qed
next
  assume h: "CHR ''\<newline>'' \<notin> set (self_task_id self)
          \<and> CHR ''\<newline>'' \<notin> set (case self_pvc_name self of None \<Rightarrow> ''None'' | Some n \<Rightarrow> n)"
  then have l: "CHR ''\<newline>'' \<notin> set (self_task_id self)"
    "CHR ''\<newline>'' \<notin> set (format_field (self_pvc_name self))"
    by (simp_all add: format_field_def)
  from volumes_line [OF l assms]
  show "has_volumes_block (split_lines (minimal_pod_template self u))" .
  have t: "split_lines (minimal_pod_template self u) =
      (['''', ''apiVersion: v1'', ''kind: Pod'', ''metadata:'',
        ''  name: '' @ self_task_id self @ ''.'' @ uuid_hex u,
        ''spec:'', ''  containers:'', ''    - name: base'', ''      env:'']
       @ (if self_mlflow_enabled self
          then ['''', ''        - name: MLFLOW_RUN_ID'',
                drop 1 (split_lines template_mlflow) ! 1]
          else []))
      @ ['''', ''  volumes:'', ''    - name: storage'', ''      persistentVolumeClaim:'',
         ''        claimName: '' @ format_field (self_pvc_name self), '''']"
    using assms l by (simp add: template_lines mlflow_lines [of "[]", simplified])
  show "suffix ['''', ''  volumes:'', ''    - name: storage'', ''      persistentVolumeClaim:'',
                ''        claimName: '' @ (case self_pvc_name self of None \<Rightarrow> ''None'' | Some n \<Rightarrow> n),
                '''']
          (split_lines (minimal_pod_template self u))"
    unfolding t by (rule suffixI) (simp add: format_field_def)
qed

theorem volumes_block_names_claim_witness:
  "\<not> self_volume_disabled unclaimed_self
   \<and> suffix ''\<newline>  volumes:\<newline>    - name: storage\<newline>      persistentVolumeClaim:\<newline>        claimName: None\<newline>''
        (minimal_pod_template unclaimed_self 7)
   \<and> has_volumes_block (split_lines (minimal_pod_template unclaimed_self 7))"
proof -
  have h: "\<not> self_volume_disabled unclaimed_self"
    by (simp add: unclaimed_self_def)
  from volumes_block_names_claim [OF h, of 7] h show ?thesis
    by (simp add: unclaimed_self_def)
qed

text \<open>
  \<^bold>\<open>C9\<close>. For every instance there is one text \<open>post\<close> such that every render is the
  fixed header up to the task identifier and the dot, then the 32 hexadecimal digits of
  the drawn UUID, then \<open>post\<close>: two renders differ in those 32 characters only.
\<close>

theorem renders_differ_only_in_token:
  "\<exists>post. \<forall>u.
      minimal_pod_template self u =
        (''\<newline>apiVersion: v1\<newline>kind: Pod\<newline>metadata:\<newline>  name: '' @ self_task_id self @ ''.'')
        @ uuid_hex u @ post
      \<and> length (uuid_hex u) = 32"
  using template_split [of self] length_uuid_hex by blast

theorem renders_differ_only_in_token_witness:
  "\<exists>post. \<forall>u.
      minimal_pod_template example_self u =
        ''\<newline>apiVersion: v1\<newline>kind: Pod\<newline>metadata:\<newline>  name: train-model.'' @ uuid_hex u @ post
      \<and> length (uuid_hex u) = 32"
  using renders_differ_only_in_token [of example_self]
  by (simp add: example_self_def)

text \<open>
  \<^bold>\<open>C10\<close>. When the caller omits \<^verbatim>\<open>pipeline\<close>, the string that follows
  \<^verbatim>\<open>--pipeline\<close> in the arguments of the constructed operator is
  \<^verbatim>\<open>__default__\<close>; with the volume disabled such an operator is constructed.
\<close>

theorem pipeline_defaults:
  assumes "arg_pipeline c = Omitted"
  shows "(\<forall>op. init c u = Inr op \<longrightarrow>
            kw_arguments op =
              [''kedro'', ''run'', ''-e'', arg_env c,
               ''--pipeline'', ''__default__'', ''--node'', arg_node_name c])
         \<and> (arg_volume_disabled c = Given True \<longrightarrow>
              (\<exists>op. init c u = Inr op
                  \<and> kw_arguments op ! 4 = ''--pipeline''
                  \<and> kw_arguments op ! 5 = ''__default__''))"
  using assms by (auto simp: init_arguments init_disabled)

theorem pipeline_defaults_witness:
  "arg_pipeline example_call = Omitted
   \<and> (\<exists>op. init example_call 7 = Inr op \<and> kw_arguments op ! 5 = ''__default__'')"
proof -
  have h: "arg_pipeline example_call = Omitted"
    and d: "arg_volume_disabled example_call = Given True"
    by (simp_all add: example_call_def)
  from pipeline_defaults [OF h, of 7] d h show ?thesis by blast
qed

end
